theory Spec2Isabelle
  imports Complex_Main
begin

section \<open>Numbers, points and hands\<close>

text \<open>
  JavaScript numbers are modelled by real numbers with exact arithmetic: rounding and
  overflow of IEEE doubles are outside the model. The one non-finite value the code
  can produce from finite landmarks is NaN, from \<open>0 / 0\<close> on an empty landmark array;
  a number that may be NaN has type \<open>num\<close>, with \<open>None\<close> for NaN. Comparisons with NaN
  are false and arithmetic on NaN gives NaN, as in the language.
  \<open>Date.now()\<close> is an integer number of milliseconds.
\<close>

type_synonym num = "real option"

definition num_less :: "num \<Rightarrow> real \<Rightarrow> bool" where
  "num_less a b = (case a of None \<Rightarrow> False | Some v \<Rightarrow> v < b)"

definition num_greater :: "num \<Rightarrow> real \<Rightarrow> bool" where
  "num_greater a b = (case a of None \<Rightarrow> False | Some v \<Rightarrow> v > b)"

definition num_avg :: "num \<Rightarrow> num \<Rightarrow> num" where
  "num_avg a b = (case (a, b) of (Some u, Some v) \<Rightarrow> Some ((u + v) / 2) | _ \<Rightarrow> None)"

text \<open>\<open>a || b\<close> on numbers: \<open>0\<close> and NaN are falsy.\<close>

definition num_or :: "num \<Rightarrow> real \<Rightarrow> real" where
  "num_or a b = (case a of None \<Rightarrow> b | Some v \<Rightarrow> if v = 0 then b else v)"

record point3 =
  px :: real
  py :: real
  pz :: real

type_synonym hand = "point3 list"

datatype error = TypeError

section \<open>State of the tracker and of the particle system\<close>

record metrics_rec =
  wristDistance :: real
  centerDistance :: num
  stability :: num

text \<open>
  The object returned by \<open>detectBasicGesture\<close> and the object stored in
  \<open>this.gestureState\<close> share the fields \<open>detected\<close>, \<open>confidence\<close> and \<open>metrics\<close>;
  \<open>metrics\<close> is \<open>None\<close> where the source leaves it undefined or null, and \<open>lastTrigger\<close>
  is \<open>None\<close> while the property is absent.
\<close>

record gesture_core =
  detected :: bool
  confidence :: real
  metrics :: "metrics_rec option"

record gesture_result = gesture_core +
  reason :: string

record gesture_state = gesture_core +
  lastUpdate :: int
  lastTrigger :: "int option"

record hand_pair =
  left :: hand
  right :: hand

datatype phase = spawning | floating | dying

text \<open>
  A particle. The source's fields \<open>id\<close>, \<open>x\<close>, \<open>y\<close> and \<open>size\<close> are named \<open>pid\<close>,
  \<open>posX\<close>, \<open>posY\<close> and \<open>psize\<close> here.
\<close>

record particle =
  pid :: nat
  posX :: real
  posY :: real
  targetX :: real
  targetY :: real
  psize :: real
  color :: string
  alpha :: real
  velocityX :: real
  velocityY :: real
  rotationSpeed :: real
  rotation :: real
  age :: real
  maxAge :: real
  phase :: phase

text \<open>
  The particle system. \<open>animationId\<close> records whether the handle of a pending animation
  frame is set (non-null); \<open>pcanvasWidth\<close> and \<open>pcanvasHeight\<close> are the size of its canvas.
\<close>

record psystem =
  particles :: "particle list"
  isActive :: bool
  animationId :: bool
  lastTime :: real
  pcanvasWidth :: real
  pcanvasHeight :: real

record tracker =
  currentHands :: "hand list"
  gestureState :: gesture_state
  previousHands :: "hand_pair option"
  particleSystem :: "psystem option"
  canvasWidth :: real
  canvasHeight :: real

section \<open>Geometry\<close>

definition calculateDistance :: "point3 \<Rightarrow> point3 \<Rightarrow> real" where
  "calculateDistance point1 point2 =
     (let dx = px point1 - px point2;
          dy = py point1 - py point2;
          dz = pz point1 - pz point2
      in sqrt (dx * dx + dy * dy + dz * dz))"

text \<open>The centre of an empty landmark array has three NaN coordinates: \<open>None\<close>.\<close>

definition calculateHandCenter :: "hand \<Rightarrow> point3 option" where
  "calculateHandCenter landmarks =
     (let sumX = sum_list (map px landmarks);
          sumY = sum_list (map py landmarks);
          sumZ = sum_list (map pz landmarks)
      in if landmarks = [] then None
         else Some \<lparr>px = sumX / real (length landmarks),
                    py = sumY / real (length landmarks),
                    pz = sumZ / real (length landmarks)\<rparr>)"

section \<open>Stability\<close>

text \<open>
  \<open>calculateHandMovement\<close>: a null hand gives 1; otherwise the distances of the
  index-aligned pairs, up to the shorter length, are summed and divided by the length of
  the current hand (NaN when that hand is empty).
\<close>

definition calculateHandMovement :: "hand option \<Rightarrow> hand option \<Rightarrow> num" where
  "calculateHandMovement currentHand previousHand =
     (case (previousHand, currentHand) of
        (Some prev, Some cur) \<Rightarrow>
          (let totalMovement = sum_list (map (\<lambda>(c, p). calculateDistance c p) (zip cur prev))
           in if cur = [] then None else Some (totalMovement / real (length cur)))
      | _ \<Rightarrow> Some 1)"

definition calculateHandStability :: "tracker \<Rightarrow> hand \<Rightarrow> hand \<Rightarrow> tracker \<times> num" where
  "calculateHandStability st leftHand rightHand =
     (case previousHands st of
        None \<Rightarrow> (st\<lparr>previousHands := Some \<lparr>left = leftHand, right = rightHand\<rparr>\<rparr>, Some (1 / 2))
      | Some prev \<Rightarrow>
          (let leftMovement = calculateHandMovement (Some leftHand) (Some (left prev));
               rightMovement = calculateHandMovement (Some rightHand) (Some (right prev));
               st' = st\<lparr>previousHands := Some \<lparr>left = leftHand, right = rightHand\<rparr>\<rparr>;
               avgMovement = num_avg leftMovement rightMovement
           in (st', map_option (\<lambda>a. max 0 (1 - a * 10)) avgMovement)))"

section \<open>Classification\<close>

text \<open>
  The scoring part of \<open>detectBasicGesture\<close> (from the proximity test to the returned
  object), as a function of the three metrics.
\<close>

definition gestureScore :: "real \<Rightarrow> num \<Rightarrow> num \<Rightarrow> gesture_result" where
  "gestureScore wd cd stab =
     (let isClose = (wd < 25 / 100 \<and> num_less cd (20 / 100));
          isStable = num_greater stab (7 / 10);
          isDetected = (isClose \<and> isStable);
          conf = (case stab of
                    None \<Rightarrow> 0
                  | Some stabilityScore \<Rightarrow>
                      if isDetected
                      then (let proximityScore = max 0 (1 - wd / (25 / 100))
                            in proximityScore * (7 / 10) + stabilityScore * (3 / 10))
                      else 0)
      in \<lparr>detected = isDetected,
          confidence = min conf 1,
          metrics = Some \<lparr>wristDistance = wd, centerDistance = cd, stability = stab\<rparr>,
          reason = (if isDetected then ''Hands positioned for gesture''
                    else ''Hands too far apart or unstable'')\<rparr>)"

definition needTwoHands :: gesture_result where
  "needTwoHands =
     \<lparr>detected = False, confidence = 0, metrics = None, reason = ''Need exactly 2 hands''\<rparr>"

text \<open>
  \<open>detectBasicGesture\<close>: \<open>None\<close> is a null or undefined argument. Reading landmark 0 of
  an empty hand gives undefined, and \<open>calculateDistance\<close> throws on it before any state
  is touched.
\<close>

definition detectBasicGesture :: "tracker \<Rightarrow> hand list option \<Rightarrow> error + (tracker \<times> gesture_result)" where
  "detectBasicGesture st hands =
     (case hands of
        None \<Rightarrow> Inr (st, needTwoHands)
      | Some hs \<Rightarrow>
          if length hs \<noteq> 2 then Inr (st, needTwoHands)
          else
            (let leftHand = hs ! 0; rightHand = hs ! 1
             in case (leftHand, rightHand) of
                  (lw # _, rw # _) \<Rightarrow>
                    (let wd = calculateDistance lw rw;
                         cd = (case (calculateHandCenter leftHand, calculateHandCenter rightHand) of
                                 (Some leftCenter, Some rightCenter) \<Rightarrow>
                                   Some (calculateDistance leftCenter rightCenter)
                               | _ \<Rightarrow> None);
                         (st', stab) = calculateHandStability st leftHand rightHand
                     in Inr (st', gestureScore wd cd stab))
                | _ \<Rightarrow> Inl TypeError))"

section \<open>Particle system\<close>

definition tigerTemplate :: "(real \<times> real) list" where
  "tigerTemplate =
     [(0.5, 0.3), (0.52, 0.28), (0.55, 0.27),
      (0.58, 0.29), (0.6, 0.32), (0.61, 0.35),
      (0.6, 0.38), (0.58, 0.41), (0.55, 0.43),
      (0.52, 0.44), (0.5, 0.45), (0.48, 0.44),
      (0.45, 0.43), (0.42, 0.41), (0.4, 0.38),
      (0.39, 0.35), (0.4, 0.32), (0.42, 0.29),
      (0.45, 0.27), (0.48, 0.28),
      (0.45, 0.25), (0.43, 0.22), (0.47, 0.24),
      (0.55, 0.25), (0.57, 0.22), (0.53, 0.24),
      (0.5, 0.45), (0.48, 0.5), (0.46, 0.55),
      (0.45, 0.6), (0.44, 0.65), (0.46, 0.7),
      (0.5, 0.72), (0.54, 0.7), (0.56, 0.65),
      (0.55, 0.6), (0.54, 0.55), (0.52, 0.5),
      (0.47, 0.35), (0.53, 0.35),
      (0.5, 0.38),
      (0.48, 0.41), (0.52, 0.41)]"

definition tigerColors :: "(string \<times> real) list" where
  "tigerColors =
     [(''#FF6B35'', 0.3), (''#FF8C42'', 0.25), (''#FF5722'', 0.2),
      (''#FFD700'', 0.15), (''#FFA000'', 0.08), (''#2C1810'', 0.02)]"

fun pickColor :: "real \<Rightarrow> (string \<times> real) list \<Rightarrow> string option" where
  "pickColor random [] = None"
| "pickColor random ((c, w) # rest) =
     (if random - w \<le> 0 then Some c else pickColor (random - w) rest)"

definition getRandomTigerColor :: "real \<Rightarrow> string" where
  "getRandomTigerColor random =
     (case pickColor random tigerColors of Some c \<Rightarrow> c | None \<Rightarrow> ''#FF6B35'')"

text \<open>
  \<open>Math.random\<close> is a function \<open>rnd\<close> from the number of the call to the value drawn.
  A particle takes nine draws, in the order of evaluation of the source: the two
  offsets, then size, colour, the two velocities, rotation speed, rotation, lifetime.
\<close>

definition makeParticle :: "(nat \<Rightarrow> real) \<Rightarrow> real \<Rightarrow> real \<Rightarrow> real \<Rightarrow> nat \<Rightarrow> real \<times> real \<Rightarrow> particle" where
  "makeParticle rnd screenCenterX screenCenterY particleScale index point =
     (let screenX = screenCenterX + (fst point - 0.5) * particleScale;
          screenY = screenCenterY + (snd point - 0.5) * particleScale;
          offsetX = (rnd (9 * index) - 0.5) * 20;
          offsetY = (rnd (9 * index + 1) - 0.5) * 20
      in \<lparr>pid = index,
          posX = screenX + offsetX,
          posY = screenY + offsetY,
          targetX = screenX,
          targetY = screenY,
          psize = 3 + rnd (9 * index + 2) * 4,
          color = getRandomTigerColor (rnd (9 * index + 3)),
          alpha = 0,
          velocityX = (rnd (9 * index + 4) - 0.5) * 2,
          velocityY = (rnd (9 * index + 5) - 0.5) * 2,
          rotationSpeed = (rnd (9 * index + 6) - 0.5) * 0.1,
          rotation = rnd (9 * index + 7) * pi * 2,
          age = 0,
          maxAge = 5000 + rnd (9 * index + 8) * 3000,
          phase = spawning\<rparr>)"

definition startAnimation :: "real \<Rightarrow> psystem \<Rightarrow> psystem" where
  "startAnimation perfNow ps =
     (if animationId ps then ps else ps\<lparr>lastTime := perfNow, animationId := True\<rparr>)"

definition spawnTigerConstellation :: "(nat \<Rightarrow> real) \<Rightarrow> real \<Rightarrow> num \<Rightarrow> num \<Rightarrow> real \<Rightarrow> psystem \<Rightarrow> psystem" where
  "spawnTigerConstellation rnd perfNow centerX centerY scale ps =
     (let ps1 = ps\<lparr>particles := []\<rparr>;
          screenCenterX = num_or centerX (pcanvasWidth ps1 / 2);
          screenCenterY = num_or centerY (pcanvasHeight ps1 / 2);
          particleScale = scale * min (pcanvasWidth ps1) (pcanvasHeight ps1) * 0.3;
          ps2 = ps1\<lparr>particles := particles ps1 @
                   map (\<lambda>(index, point).
                          makeParticle rnd screenCenterX screenCenterY particleScale index point)
                       (enumerate 0 tigerTemplate)\<rparr>;
          ps3 = ps2\<lparr>isActive := True\<rparr>
      in startAnimation perfNow ps3)"

definition updateParticle :: "real \<Rightarrow> particle \<Rightarrow> particle" where
  "updateParticle deltaTime p =
     (let age' = age p + deltaTime;
          phase' = (if age' < 500 then spawning
                    else if age' < maxAge p - 1000 then floating
                    else dying);
          alpha' = (case phase' of
                      spawning \<Rightarrow> min 1 (age' / 500)
                    | floating \<Rightarrow> 1
                    | dying \<Rightarrow>
                        (let dyingProgress = (age' - (maxAge p - 1000)) / 1000
                         in max 0 (1 - dyingProgress)));
          time = age' * 0.001;
          vx1 = velocityX p + sin (time * 2 + real (pid p)) * 0.02;
          vy1 = velocityY p + cos (time * 1.5 + real (pid p)) * 0.02;
          x' = posX p + vx1;
          y' = posY p + vy1;
          vx2 = vx1 * 0.98;
          vy2 = vy1 * 0.98;
          attractionStrength = 0.02;
          vx3 = vx2 + (targetX p - x') * attractionStrength;
          vy3 = vy2 + (targetY p - y') * attractionStrength
      in p\<lparr>age := age', phase := phase', alpha := alpha',
           posX := x', posY := y', velocityX := vx3, velocityY := vy3,
           rotation := rotation p + rotationSpeed p\<rparr>)"

text \<open>
  The filter callback of \<open>updateParticles\<close> updates a particle in place and keeps it
  when its new age is below \<open>maxAge\<close>.
\<close>

definition updateParticles :: "real \<Rightarrow> psystem \<Rightarrow> psystem" where
  "updateParticles deltaTime ps =
     ps\<lparr>particles := filter (\<lambda>p. age p < maxAge p) (map (updateParticle deltaTime) (particles ps))\<rparr>"

text \<open>One animation frame at time \<open>currentTime\<close> (rendering draws only).\<close>

definition animate :: "real \<Rightarrow> psystem \<Rightarrow> psystem" where
  "animate currentTime ps =
     (if \<not> isActive ps then ps
      else
        (let deltaTime = currentTime - lastTime ps;
             ps1 = ps\<lparr>lastTime := currentTime\<rparr>;
             ps2 = updateParticles deltaTime ps1
         in if length (particles ps2) > 0 then ps2\<lparr>animationId := True\<rparr>
            else ps2\<lparr>animationId := False, isActive := False\<rparr>))"

definition stopAnimation :: "psystem \<Rightarrow> psystem" where
  "stopAnimation ps = ps\<lparr>isActive := False, animationId := False, particles := []\<rparr>"

section \<open>Triggering\<close>

definition triggerTigerConstellation :: "(nat \<Rightarrow> real) \<Rightarrow> real \<Rightarrow> tracker \<Rightarrow> tracker" where
  "triggerTigerConstellation rnd perfNow st =
     (case particleSystem st of
        None \<Rightarrow> st
      | Some ps \<Rightarrow>
          (let (centerX, centerY) =
                 (if length (currentHands st) = 2
                  then (case (calculateHandCenter (currentHands st ! 0),
                              calculateHandCenter (currentHands st ! 1)) of
                          (Some leftCenter, Some rightCenter) \<Rightarrow>
                            (Some ((px leftCenter + px rightCenter) / 2 * canvasWidth st),
                             Some ((py leftCenter + py rightCenter) / 2 * canvasHeight st))
                        | _ \<Rightarrow> (None, None))
                  else (Some (canvasWidth st / 2), Some (canvasHeight st / 2)))
           in st\<lparr>particleSystem := Some (spawnTigerConstellation rnd perfNow centerX centerY 1 ps)\<rparr>))"

text \<open>\<open>!t\<close> on the last-trigger timestamp: an absent property and 0 are falsy.\<close>

definition unset :: "int option \<Rightarrow> bool" where
  "unset t = (case t of None \<Rightarrow> True | Some v \<Rightarrow> v = 0)"

definition elapsed :: "int \<Rightarrow> int option \<Rightarrow> bool" where
  "elapsed now t = (case t of None \<Rightarrow> False | Some v \<Rightarrow> now - v > 3000)"

text \<open>
  \<open>processGestures\<close>. Both readings of \<open>Date.now()\<close> in one call are the value \<open>now\<close>.
  The result carries the new state and whether \<open>triggerTigerConstellation\<close> was called
  (a spawn event). The assignment to \<open>this.gestureState\<close> builds a new object with the
  four listed properties, so \<open>lastTrigger\<close> is absent from it.
\<close>

definition processGestures :: "(nat \<Rightarrow> real) \<Rightarrow> real \<Rightarrow> int \<Rightarrow> tracker \<Rightarrow> error + (tracker \<times> bool)" where
  "processGestures rnd perfNow now st =
     (if length (currentHands st) = 2
      then
        (case detectBasicGesture st (Some (currentHands st)) of
           Inl e \<Rightarrow> Inl e
         | Inr (st1, gestureResult) \<Rightarrow>
             (let st2 = st1\<lparr>gestureState :=
                          \<lparr>detected = detected gestureResult,
                           confidence = confidence gestureResult,
                           metrics = metrics gestureResult,
                           lastUpdate = now,
                           lastTrigger = None\<rparr>\<rparr>
              in if detected gestureResult \<and> confidence gestureResult > 8 / 10
                 then
                   (if unset (lastTrigger (gestureState st2))
                       \<or> elapsed now (lastTrigger (gestureState st2))
                    then
                      (let st3 = triggerTigerConstellation rnd perfNow st2
                       in Inr (st3\<lparr>gestureState := (gestureState st3)\<lparr>lastTrigger := Some now\<rparr>\<rparr>,
                               True))
                    else Inr (st2, False))
                 else Inr (st2, False)))
      else
        Inr (st\<lparr>gestureState :=
                  \<lparr>detected = False, confidence = 0, metrics = None,
                   lastUpdate = now, lastTrigger = None\<rparr>\<rparr>,
             False))"

text \<open>
  One delivered frame. \<open>results\<close> is \<open>results.multiHandLandmarks\<close> (\<open>None\<close> when absent).
  Drawing the landmarks reads landmarks 0 to 20 of every hand and throws on a shorter
  one; the handler catches every exception, so the frame then ends with only
  \<open>currentHands\<close> replaced.
\<close>

record frame =
  f_results :: "hand list option"
  f_now :: int
  f_perf :: real
  f_rnd :: "nat \<Rightarrow> real"

definition drawLandmarks :: "hand list \<Rightarrow> error + unit" where
  "drawLandmarks hs = (if list_ex (\<lambda>h. length h < 21) hs then Inl TypeError else Inr ())"

definition onResults :: "frame \<Rightarrow> tracker \<Rightarrow> tracker \<times> bool" where
  "onResults f st =
     (let st1 = st\<lparr>currentHands := (case f_results f of None \<Rightarrow> [] | Some hs \<Rightarrow> hs)\<rparr>
      in case drawLandmarks (currentHands st1) of
           Inl e \<Rightarrow> (st1, False)
         | Inr u \<Rightarrow>
             (case processGestures (f_rnd f) (f_perf f) (f_now f) st1 of
                Inl e \<Rightarrow> (st1, False)
              | Inr r \<Rightarrow> r))"

text \<open>A sequence of frames, with the spawn events it fires, frame by frame.\<close>

fun feed :: "tracker \<Rightarrow> frame list \<Rightarrow> tracker \<times> bool list" where
  "feed st [] = (st, [])"
| "feed st (f # fs) =
     (let (st1, fired) = onResults f st; (st2, rest) = feed st1 fs in (st2, fired # rest))"

section \<open>Construction\<close>

text \<open>
  The particle system as its constructor leaves it, on a canvas of the given size, and
  the tracker after \<open>init()\<close>: the constructor's fields, the landmark canvas sized and
  the particle system created. \<open>previousHands\<close> is not set by the constructor.
\<close>

definition newParticleSystem :: "real \<Rightarrow> real \<Rightarrow> psystem" where
  "newParticleSystem w h =
     \<lparr>particles = [], isActive = False, animationId = False, lastTime = 0,
      pcanvasWidth = w, pcanvasHeight = h\<rparr>"

definition newTracker :: "int \<Rightarrow> real \<Rightarrow> real \<Rightarrow> tracker" where
  "newTracker now w h =
     \<lparr>currentHands = [],
      gestureState = \<lparr>detected = False, confidence = 0, metrics = None,
                      lastUpdate = now, lastTrigger = None\<rparr>,
      previousHands = None,
      particleSystem = Some (newParticleSystem w h),
      canvasWidth = w,
      canvasHeight = h\<rparr>"

section \<open>Properties as the specification words them\<close>

text \<open>
  The specification's stillness of one slot, \<open>clamp(1 - avgMovement \<times> 10, 0, 1)\<close>, its
  stability of a frame, the mean of the two slots' stillness, and the average
  point-wise displacement of a hand since the previous frame.
\<close>

definition spec_stillness :: "real \<Rightarrow> real" where
  "spec_stillness avgMovement = max 0 (min 1 (1 - avgMovement * 10))"

definition spec_stability :: "real \<Rightarrow> real \<Rightarrow> real" where
  "spec_stability movementA movementB = (spec_stillness movementA + spec_stillness movementB) / 2"

definition avgDisplacement :: "hand \<Rightarrow> hand \<Rightarrow> real" where
  "avgDisplacement cur prev =
     (\<Sum>i < length cur. calculateDistance (cur ! i) (prev ! i)) / real (length cur)"

text \<open>The order of the phases, and the phase and alpha a particle of a given age has.\<close>

definition phase_rank :: "phase \<Rightarrow> nat" where
  "phase_rank ph = (case ph of spawning \<Rightarrow> 0 | floating \<Rightarrow> 1 | dying \<Rightarrow> 2)"

definition phase_inv :: "particle \<Rightarrow> bool" where
  "phase_inv p =
     ((phase p = spawning) = (age p < 500)
      \<and> (phase p = floating) = (500 \<le> age p \<and> age p < maxAge p - 1000)
      \<and> (phase p = dying) = (maxAge p - 1000 \<le> age p))"

definition alpha_inv :: "particle \<Rightarrow> bool" where
  "alpha_inv p =
     ((age p = 0 \<longrightarrow> alpha p = 0)
      \<and> (age p < 500 \<longrightarrow> alpha p = min 1 (age p / 500))
      \<and> (500 \<le> age p \<and> age p < maxAge p - 1000 \<longrightarrow> alpha p = 1)
      \<and> (maxAge p - 1000 \<le> age p \<longrightarrow>
            alpha p = max 0 (1 - (age p - (maxAge p - 1000)) / 1000))
      \<and> (maxAge p \<le> age p \<longrightarrow> alpha p = 0))"

section \<open>Concrete hands and frames\<close>

text \<open>
  Hands of 21 landmarks in the plane \<open>y = 1/2, z = 0\<close>: the wrist at abscissa \<open>w\<close> and the
  twenty other landmarks at abscissa \<open>a\<close>.
\<close>

definition pt :: "real \<Rightarrow> point3" where
  "pt a = \<lparr>px = a, py = 1 / 2, pz = 0\<rparr>"

definition wristHand :: "real \<Rightarrow> real \<Rightarrow> hand" where
  "wristHand w a = pt w # replicate 20 (pt a)"

definition flatHand :: "real \<Rightarrow> hand" where
  "flatHand a = wristHand a a"

definition frameOf :: "int \<Rightarrow> hand list \<Rightarrow> frame" where
  "frameOf t hs = \<lparr>f_results = Some hs, f_now = t, f_perf = real_of_int t, f_rnd = (\<lambda>k. 1 / 2)\<rparr>"

definition particleOf :: "real \<Rightarrow> real \<Rightarrow> particle" where
  "particleOf a m =
     \<lparr>pid = 0, posX = 0, posY = 0, targetX = 0, targetY = 0, psize = 3,
      color = ''#FF6B35'', alpha = 0, velocityX = 0, velocityY = 0,
      rotationSpeed = 0, rotation = 0, age = a, maxAge = m, phase = spawning\<rparr>"

text \<open>
  A tracker that has already classified one frame of two flat hands at abscissas 0.45
  and 0.5, and keeps them as previous observations.
\<close>

definition heldTracker :: tracker where
  "heldTracker = (newTracker 0 640 480)
     \<lparr>previousHands := Some \<lparr>left = flatHand (45 / 100), right = flatHand (1 / 2)\<rparr>\<rparr>"

text \<open>
  Two trackers holding a left hand whose centre is at abscissa 0.42, with the wrist at
  0.42 and at 0.21, and a flat right hand at 0.5.
\<close>

definition nearTracker :: tracker where
  "nearTracker = (newTracker 0 640 480)
     \<lparr>previousHands := Some \<lparr>left = wristHand (42 / 100) (42 / 100), right = flatHand (1 / 2)\<rparr>\<rparr>"

definition farTracker :: tracker where
  "farTracker = (newTracker 0 640 480)
     \<lparr>previousHands := Some \<lparr>left = wristHand (21 / 100) (4305 / 10000), right = flatHand (1 / 2)\<rparr>\<rparr>"

text \<open>
  A tracker holding two flat hands at abscissas 0.4 and 0.5 as previous observations.
\<close>

definition movedTracker :: tracker where
  "movedTracker = (newTracker 0 640 480)
     \<lparr>previousHands := Some \<lparr>left = flatHand (4 / 10), right = flatHand (5 / 10)\<rparr>\<rparr>"

text \<open>Two flat hands, 0.05 apart.\<close>

definition closeHands :: "hand list" where
  "closeHands = [flatHand (45 / 100), flatHand (1 / 2)]"

text \<open>
  A particle after a sequence of update ticks with the given time steps, and a system
  of two particles of ages 0 and 450 and lifetimes 5000 and 6000.
\<close>

definition ticks :: "real list \<Rightarrow> particle \<Rightarrow> particle" where
  "ticks dts p = foldl (\<lambda>q dt. updateParticle dt q) p dts"

definition demoSystem :: psystem where
  "demoSystem = (newParticleSystem 640 480)\<lparr>particles := [particleOf 0 5000, particleOf 450 6000]\<rparr>"

section \<open>Geometry of the concrete hands\<close>

lemma calculateDistance_pt: "calculateDistance (pt a) (pt b) = \<bar>a - b\<bar>"
  by (simp add: calculateDistance_def pt_def)

lemma calculateDistance_nonneg: "0 \<le> calculateDistance p q"
  by (simp add: calculateDistance_def Let_def)

lemma calculateHandCenter_wristHand:
  "calculateHandCenter (wristHand w a) = Some (pt ((w + 20 * a) / 21))"
  by (simp add: calculateHandCenter_def wristHand_def pt_def sum_list_replicate)

lemma calculateHandMovement_wristHand:
  "calculateHandMovement (Some (wristHand w a)) (Some (wristHand v b)) =
     Some ((\<bar>w - v\<bar> + 20 * \<bar>a - b\<bar>) / 21)"
  by (simp add: calculateHandMovement_def wristHand_def calculateDistance_pt
      sum_list_replicate)

section \<open>Lemmas about classification\<close>

lemma gestureScore_detected:
  "detected (gestureScore wd cd stab) =
     (wd < 25 / 100 \<and> num_less cd (20 / 100) \<and> num_greater stab (7 / 10))"
  by (simp add: gestureScore_def Let_def)

lemma gestureScore_metrics:
  "metrics (gestureScore wd cd stab) =
     Some \<lparr>wristDistance = wd, centerDistance = cd, stability = stab\<rparr>"
  by (simp add: gestureScore_def Let_def)

lemma gestureScore_confidence:
  "confidence (gestureScore wd cd stab) =
     (case stab of None \<Rightarrow> 0
      | Some s \<Rightarrow> if detected (gestureScore wd cd stab)
                  then min (max 0 (1 - wd / (25 / 100)) * (7 / 10) + s * (3 / 10)) 1 else 0)"
  by (simp add: gestureScore_def Let_def split: option.splits)

lemma gestureScore_confidence_nonneg: "0 \<le> confidence (gestureScore wd cd stab)"
  by (auto simp: gestureScore_confidence gestureScore_detected num_greater_def
      split: option.splits intro!: add_nonneg_nonneg)

lemma gestureScore_undetected:
  "\<not> detected (gestureScore wd cd stab) \<Longrightarrow> confidence (gestureScore wd cd stab) = 0"
  by (auto simp: gestureScore_confidence split: option.splits)

lemma gestureScore_mono:
  assumes "wd1 \<le> wd2"
  shows "confidence (gestureScore wd2 cd stab) \<le> confidence (gestureScore wd1 cd stab)"
proof (cases "detected (gestureScore wd2 cd stab)")
  case False
  then show ?thesis
    by (simp add: gestureScore_undetected gestureScore_confidence_nonneg)
next
  case True
  then obtain s where s: "stab = Some s"
    by (auto simp: gestureScore_detected num_greater_def split: option.splits)
  from True assms have d1: "detected (gestureScore wd1 cd stab)"
    by (auto simp: gestureScore_detected)
  define A where "A = max 0 (1 - wd2 / (25 / 100)) * (7 / 10) + s * (3 / 10)"
  define B where "B = max 0 (1 - wd1 / (25 / 100)) * (7 / 10) + s * (3 / 10)"
  have "max 0 (1 - wd2 / (25 / 100)) \<le> max 0 (1 - wd1 / (25 / 100))"
    using assms by (simp add: max_def)
  then have "A \<le> B"
    by (simp add: A_def B_def)
  then have "min A 1 \<le> min B 1"
    by (rule min.mono) simp
  moreover have "confidence (gestureScore wd2 cd stab) = min A 1"
    using True by (simp add: gestureScore_confidence s A_def)
  moreover have "confidence (gestureScore wd1 cd stab) = min B 1"
    using d1 by (simp add: gestureScore_confidence s B_def)
  ultimately show ?thesis by simp
qed

lemma detect_cases:
  assumes "detectBasicGesture st hands = Inr (st', r)"
  shows "r = needTwoHands \<or> (\<exists>wd cd stab. r = gestureScore wd cd stab)"
  using assms
  by (auto simp: detectBasicGesture_def Let_def
      split: option.splits if_splits list.splits prod.splits)

lemma detect_wristHands:
  "detectBasicGesture st (Some [wristHand w a, wristHand v b]) =
     Inr (fst (calculateHandStability st (wristHand w a) (wristHand v b)),
          gestureScore \<bar>w - v\<bar> (Some \<bar>(w + 20 * a) / 21 - (v + 20 * b) / 21\<bar>)
            (snd (calculateHandStability st (wristHand w a) (wristHand v b))))"
proof -
  have c: "calculateHandCenter (pt w # replicate 20 (pt a)) = Some (pt ((w + 20 * a) / 21))"
          "calculateHandCenter (pt v # replicate 20 (pt b)) = Some (pt ((v + 20 * b) / 21))"
    using calculateHandCenter_wristHand [of w a] calculateHandCenter_wristHand [of v b]
    by (simp_all add: wristHand_def)
  show ?thesis
    unfolding detectBasicGesture_def
    by (simp add: wristHand_def [of w a] wristHand_def [of v b] c calculateDistance_pt
        split_beta Let_def)
qed

lemma stability_first:
  "previousHands st = None \<Longrightarrow>
   calculateHandStability st l r =
     (st\<lparr>previousHands := Some \<lparr>left = l, right = r\<rparr>\<rparr>, Some (1 / 2))"
  by (simp add: calculateHandStability_def)

lemma stability_wristHands:
  "previousHands st = Some \<lparr>left = wristHand w' a', right = wristHand v' b'\<rparr> \<Longrightarrow>
   calculateHandStability st (wristHand w a) (wristHand v b) =
     (st\<lparr>previousHands := Some \<lparr>left = wristHand w a, right = wristHand v b\<rparr>\<rparr>,
      Some (max 0 (1 - ((\<bar>w - w'\<bar> + 20 * \<bar>a - a'\<bar>) / 21
                         + (\<bar>v - v'\<bar> + 20 * \<bar>b - b'\<bar>) / 21) / 2 * 10)))"
  by (simp add: calculateHandStability_def calculateHandMovement_wristHand num_avg_def)



lemma detect_flat_held:
  "previousHands st = Some \<lparr>left = flatHand a, right = flatHand b\<rparr> \<Longrightarrow>
   detectBasicGesture st (Some [flatHand a, flatHand b]) =
     Inr (st\<lparr>previousHands := Some \<lparr>left = flatHand a, right = flatHand b\<rparr>\<rparr>,
          gestureScore \<bar>a - b\<bar> (Some \<bar>a - b\<bar>) (Some 1))"
  by (simp add: flatHand_def detect_wristHands stability_wristHands)

section \<open>Claims about classification\<close>

text \<open>
  Claim C2. For every list of hands whose length is not 2 (no hand, one hand, or more
  than two), \<open>detectBasicGesture\<close> returns normally, with \<open>detected = false\<close> and
  \<open>confidence = 0\<close>, and leaves the tracker unchanged. All such inputs take the one
  branch that returns the object \<open>needTwoHands\<close>.
\<close>

theorem C2_wrong_hand_count:
  assumes "length hs \<noteq> 2"
  shows "detectBasicGesture st (Some hs) = Inr (st, needTwoHands)
         \<and> detected needTwoHands = False \<and> confidence needTwoHands = 0"
  using assms by (simp add: detectBasicGesture_def needTwoHands_def)

theorem C2_wrong_hand_count_witness:
  "length ([] :: hand list) \<noteq> 2 \<and> length [flatHand (1 / 2)] \<noteq> 2
   \<and> detectBasicGesture heldTracker (Some []) = Inr (heldTracker, needTwoHands)
   \<and> detectBasicGesture heldTracker (Some [flatHand (1 / 2)]) = Inr (heldTracker, needTwoHands)
   \<and> detected needTwoHands = False \<and> confidence needTwoHands = 0"
proof -
  have h0: "length ([] :: hand list) \<noteq> 2" by simp
  have h1: "length [flatHand (1 / 2)] \<noteq> 2" by simp
  show ?thesis
    using h0 h1 C2_wrong_hand_count [OF h0, of heldTracker]
      C2_wrong_hand_count [OF h1, of heldTracker]
    by simp
qed



text \<open>
  Claim C10. Whenever \<open>detectBasicGesture\<close> returns with \<open>detected = true\<close>, the returned
  confidence is strictly greater than 0.21.
\<close>

theorem C10_detected_confidence_bound:
  assumes "detectBasicGesture st hands = Inr (st', r)" and "detected r"
  shows "confidence r > 0.21"
proof -
  from detect_cases [OF assms(1)] assms(2)
  obtain wd cd stab where r: "r = gestureScore wd cd stab"
    by (auto simp: needTwoHands_def)
  from assms(2) obtain s where s: "stab = Some s" "s > 7 / 10"
    by (auto simp: r gestureScore_detected num_greater_def split: option.splits)
  have "0 \<le> max 0 (1 - wd / (25 / 100)) * (7 / 10)" by simp
  moreover have "s * (3 / 10) > 21 / 100" using s by simp
  ultimately have "max 0 (1 - wd / (25 / 100)) * (7 / 10) + s * (3 / 10) > 21 / 100"
    by linarith
  then show ?thesis
    using assms(2) by (simp add: r s gestureScore_confidence min_def)
qed

theorem C10_detected_confidence_bound_witness:
  "detectBasicGesture heldTracker (Some [flatHand (45 / 100), flatHand (1 / 2)]) =
     Inr (heldTracker, gestureScore (1 / 20) (Some (1 / 20)) (Some 1))
   \<and> detected (gestureScore (1 / 20) (Some (1 / 20)) (Some 1))
   \<and> confidence (gestureScore (1 / 20) (Some (1 / 20)) (Some 1)) > 0.21"
proof -
  have h: "detectBasicGesture heldTracker (Some [flatHand (45 / 100), flatHand (1 / 2)]) =
     Inr (heldTracker, gestureScore (1 / 20) (Some (1 / 20)) (Some 1))"
    by (simp add: detect_flat_held heldTracker_def)
  have d: "detected (gestureScore (1 / 20) (Some (1 / 20)) (Some 1))"
    by (simp add: gestureScore_detected num_less_def num_greater_def)
  show ?thesis
    using h d C10_detected_confidence_bound [OF h d] by simp
qed

lemma detect_metrics:
  assumes "detectBasicGesture st hands = Inr (st', r)" and "metrics r = Some m"
  shows "r = gestureScore (wristDistance m) (centerDistance m) (stability m)"
proof -
  from detect_cases [OF assms(1)] assms(2)
  obtain wd cd stab where r: "r = gestureScore wd cd stab"
    by (auto simp: needTwoHands_def)
  with assms(2) have "m = \<lparr>wristDistance = wd, centerDistance = cd, stability = stab\<rparr>"
    by (simp add: gestureScore_metrics)
  then show ?thesis by (simp add: r)
qed

text \<open>
  Claim C5. Of two classifications that return the same stability and the same centre
  distance, the one with the larger wrist distance returns a confidence that is not
  larger (including the drop to 0 when the proximity gate fails), and a classification
  that is not detected returns confidence 0.
\<close>

theorem C5_confidence_antitone:
  assumes "detectBasicGesture st1 hands1 = Inr (st1', r1)"
    and "detectBasicGesture st2 hands2 = Inr (st2', r2)"
    and "metrics r1 = Some m1" and "metrics r2 = Some m2"
    and "stability m1 = stability m2"
    and "centerDistance m1 = centerDistance m2"
    and "wristDistance m1 \<le> wristDistance m2"
  shows "confidence r2 \<le> confidence r1 \<and> (detected r2 \<or> confidence r2 = 0)"
proof -
  have r1: "r1 = gestureScore (wristDistance m1) (centerDistance m2) (stability m2)"
    using detect_metrics [OF assms(1) assms(3)] assms(5,6) by simp
  have r2: "r2 = gestureScore (wristDistance m2) (centerDistance m2) (stability m2)"
    by (rule detect_metrics [OF assms(2) assms(4)])
  have "confidence r2 \<le> confidence r1"
    unfolding r1 r2 by (rule gestureScore_mono [OF assms(7)])
  moreover have "detected r2 \<or> confidence r2 = 0"
    unfolding r2 using gestureScore_undetected by blast
  ultimately show ?thesis by simp
qed

lemma detect_near:
  "detectBasicGesture nearTracker (Some [wristHand (42 / 100) (42 / 100), flatHand (1 / 2)]) =
     Inr (nearTracker, gestureScore (8 / 100) (Some (8 / 100)) (Some 1))"
  by (simp add: nearTracker_def flatHand_def detect_wristHands stability_wristHands)

lemma detect_far:
  "detectBasicGesture farTracker (Some [wristHand (21 / 100) (4305 / 10000), flatHand (1 / 2)]) =
     Inr (farTracker, gestureScore (29 / 100) (Some (8 / 100)) (Some 1))"
  by (simp add: farTracker_def flatHand_def detect_wristHands stability_wristHands)

theorem C5_confidence_antitone_witness:
  "detectBasicGesture nearTracker (Some [wristHand (42 / 100) (42 / 100), flatHand (1 / 2)]) =
     Inr (nearTracker, gestureScore (8 / 100) (Some (8 / 100)) (Some 1))
   \<and> detectBasicGesture farTracker (Some [wristHand (21 / 100) (4305 / 10000), flatHand (1 / 2)]) =
     Inr (farTracker, gestureScore (29 / 100) (Some (8 / 100)) (Some 1))
   \<and> (8 / 100 :: real) \<le> 29 / 100
   \<and> confidence (gestureScore (29 / 100) (Some (8 / 100)) (Some 1))
       \<le> confidence (gestureScore (8 / 100) (Some (8 / 100)) (Some 1))
   \<and> confidence (gestureScore (8 / 100) (Some (8 / 100)) (Some 1)) = 97 / 125
   \<and> confidence (gestureScore (29 / 100) (Some (8 / 100)) (Some 1)) = 0"
proof -
  let ?m1 = "\<lparr>wristDistance = 8 / 100, centerDistance = Some (8 / 100), stability = Some 1\<rparr>"
  let ?m2 = "\<lparr>wristDistance = 29 / 100, centerDistance = Some (8 / 100), stability = Some 1\<rparr>"
  have a: "metrics (gestureScore (8 / 100) (Some (8 / 100)) (Some 1)) = Some ?m1"
    by (simp add: gestureScore_metrics)
  have b: "metrics (gestureScore (29 / 100) (Some (8 / 100)) (Some 1)) = Some ?m2"
    by (simp add: gestureScore_metrics)
  have c: "stability ?m1 = stability ?m2" by simp
  have d: "centerDistance ?m1 = centerDistance ?m2" by simp
  have e: "wristDistance ?m1 \<le> wristDistance ?m2" by simp
  have v1: "confidence (gestureScore (8 / 100) (Some (8 / 100)) (Some 1)) = 97 / 125"
    by (simp add: gestureScore_confidence gestureScore_detected num_less_def num_greater_def)
  have v2: "confidence (gestureScore (29 / 100) (Some (8 / 100)) (Some 1)) = 0"
    by (simp add: gestureScore_confidence gestureScore_detected num_less_def num_greater_def)
  show ?thesis
    using C5_confidence_antitone [OF detect_near detect_far a b c d e] detect_near detect_far v1 v2
    by simp
qed

section \<open>Claims about stability\<close>

lemma sum_list_zip_nth:
  assumes "length xs = length ys"
  shows "sum_list (map (\<lambda>(c, p). f c p) (zip xs ys)) = (\<Sum>i < length xs. (f (xs ! i) (ys ! i) :: real))"
proof -
  have "sum_list (map (\<lambda>(c, p). f c p) (zip xs ys))
        = (\<Sum>i = 0..<length xs. map (\<lambda>(c, p). f c p) (zip xs ys) ! i)"
    using assms by (simp add: sum_list_sum_nth)
  also have "\<dots> = (\<Sum>i = 0..<length xs. f (xs ! i) (ys ! i))"
    using assms by (intro sum.cong) simp_all
  finally show ?thesis by (simp add: atLeast0LessThan)
qed

lemma calculateHandMovement_avgDisplacement:
  assumes "cur \<noteq> []" and "length prev = length cur"
  shows "calculateHandMovement (Some cur) (Some prev) = Some (avgDisplacement cur prev)"
  using assms
  by (simp add: calculateHandMovement_def avgDisplacement_def sum_list_zip_nth)

lemma avgDisplacement_nonneg: "0 \<le> avgDisplacement cur prev"
  by (simp add: avgDisplacement_def sum_nonneg calculateDistance_nonneg)

lemma avgDisplacement_wristHand:
  "avgDisplacement (wristHand w a) (wristHand v b) = (\<bar>w - v\<bar> + 20 * \<bar>a - b\<bar>) / 21"
proof -
  have "calculateHandMovement (Some (wristHand w a)) (Some (wristHand v b))
        = Some (avgDisplacement (wristHand w a) (wristHand v b))"
    by (rule calculateHandMovement_avgDisplacement) (simp_all add: wristHand_def)
  then show ?thesis by (simp add: calculateHandMovement_wristHand)
qed

text \<open>
  Claim C3, as stated, fails: with the left hand still and every landmark of the right
  hand moved by 0.2, the code returns stability 0, while the mean of the two per-slot
  stillness scores \<open>clamp(1 - 10 \<times> movement, 0, 1)\<close> is 1/2.
\<close>

theorem C3_stability_counterexample:
  "snd (calculateHandStability movedTracker (flatHand (4 / 10)) (flatHand (7 / 10))) = Some 0
   \<and> avgDisplacement (flatHand (4 / 10)) (flatHand (4 / 10)) = 0
   \<and> avgDisplacement (flatHand (7 / 10)) (flatHand (5 / 10)) = 2 / 10
   \<and> spec_stability 0 (2 / 10) = 1 / 2
   \<and> snd (calculateHandStability movedTracker (flatHand (4 / 10)) (flatHand (7 / 10)))
       \<noteq> Some (spec_stability (avgDisplacement (flatHand (4 / 10)) (flatHand (4 / 10)))
                               (avgDisplacement (flatHand (7 / 10)) (flatHand (5 / 10))))"
  by (simp add: movedTracker_def flatHand_def stability_wristHands avgDisplacement_wristHand
      spec_stability_def spec_stillness_def)

text \<open>
  Claim C3, amended. For every two-hand classification frame that has stored previous
  observations (of the same lengths as the current hands), the stability is
  \<open>clamp(1 - 10 \<times> m, 0, 1)\<close>, where \<open>m\<close> is the arithmetic mean of the two hands'
  average point-wise Euclidean displacements since the previous frame: one clamp of the
  mean movement, not the mean of two clamped scores.
\<close>

theorem C3_stability_of_mean_movement:
  assumes "previousHands st = Some prev"
    and "leftHand \<noteq> []" and "rightHand \<noteq> []"
    and "length (left prev) = length leftHand"
    and "length (right prev) = length rightHand"
  shows "snd (calculateHandStability st leftHand rightHand) =
           Some (max 0 (min 1 (1 - (avgDisplacement leftHand (left prev)
                                     + avgDisplacement rightHand (right prev)) / 2 * 10)))"
proof -
  have l: "calculateHandMovement (Some leftHand) (Some (left prev))
           = Some (avgDisplacement leftHand (left prev))"
    using assms(2,4) by (rule calculateHandMovement_avgDisplacement)
  have r: "calculateHandMovement (Some rightHand) (Some (right prev))
           = Some (avgDisplacement rightHand (right prev))"
    using assms(3,5) by (rule calculateHandMovement_avgDisplacement)
  have "0 \<le> (avgDisplacement leftHand (left prev) + avgDisplacement rightHand (right prev)) / 2 * 10"
    using avgDisplacement_nonneg [of leftHand "left prev"]
      avgDisplacement_nonneg [of rightHand "right prev"] by simp
  then have "min 1 (1 - (avgDisplacement leftHand (left prev)
                         + avgDisplacement rightHand (right prev)) / 2 * 10)
             = 1 - (avgDisplacement leftHand (left prev)
                    + avgDisplacement rightHand (right prev)) / 2 * 10"
    by (simp add: min_def)
  then show ?thesis
    using assms(1) by (simp add: calculateHandStability_def l r num_avg_def Let_def)
qed

theorem C3_stability_of_mean_movement_witness:
  "previousHands movedTracker = Some \<lparr>left = flatHand (4 / 10), right = flatHand (5 / 10)\<rparr>
   \<and> flatHand (4 / 10) \<noteq> [] \<and> flatHand (52 / 100) \<noteq> []
   \<and> length (flatHand (4 / 10)) = length (flatHand (4 / 10))
   \<and> length (flatHand (5 / 10)) = length (flatHand (52 / 100))
   \<and> snd (calculateHandStability movedTracker (flatHand (4 / 10)) (flatHand (52 / 100))) = Some (9 / 10)"
proof -
  let ?prev = "\<lparr>left = flatHand (4 / 10), right = flatHand (5 / 10)\<rparr>"
  have p: "previousHands movedTracker = Some ?prev" by (simp add: movedTracker_def)
  have a: "flatHand (4 / 10) \<noteq> []" by (simp add: flatHand_def wristHand_def)
  have b: "flatHand (52 / 100) \<noteq> []" by (simp add: flatHand_def wristHand_def)
  have c: "length (left ?prev) = length (flatHand (4 / 10))" by simp
  have d: "length (right ?prev) = length (flatHand (52 / 100))"
    by (simp add: flatHand_def wristHand_def)
  show ?thesis
    using C3_stability_of_mean_movement [OF p a b c d] p a b d
    by (simp add: flatHand_def avgDisplacement_wristHand)
qed

section \<open>Claims about triggering and the stored observations\<close>

lemma trigger_previousHands [simp]:
  "previousHands (triggerTigerConstellation rnd perf st) = previousHands st"
  by (simp add: triggerTigerConstellation_def split_beta split: option.splits)

lemma trigger_gestureState [simp]:
  "gestureState (triggerTigerConstellation rnd perf st) = gestureState st"
  by (simp add: triggerTigerConstellation_def split_beta split: option.splits)

lemma trigger_currentHands [simp]:
  "currentHands (triggerTigerConstellation rnd perf st) = currentHands st"
  by (simp add: triggerTigerConstellation_def split_beta split: option.splits)

lemma processGestures_two:
  assumes "length (currentHands st) = 2"
    and "detectBasicGesture st (Some (currentHands st)) = Inr (st1, r)"
  shows "\<exists>st'. processGestures rnd perf now st = Inr (st', detected r \<and> confidence r > 8 / 10)
           \<and> previousHands st' = previousHands st1
           \<and> detected (gestureState st') = detected r
           \<and> confidence (gestureState st') = confidence r
           \<and> metrics (gestureState st') = metrics r
           \<and> lastTrigger (gestureState st') =
               (if detected r \<and> confidence r > 8 / 10 then Some now else None)"
  using assms by (simp add: processGestures_def Let_def unset_def)

lemma processGestures_other:
  assumes "length (currentHands st) \<noteq> 2"
  shows "processGestures rnd perf now st =
           Inr (st\<lparr>gestureState := \<lparr>detected = False, confidence = 0, metrics = None,
                                     lastUpdate = now, lastTrigger = None\<rparr>\<rparr>, False)"
  using assms by (simp add: processGestures_def)

lemma detect_previousHands_only:
  assumes "previousHands st = previousHands st'"
  shows "map_sum id snd (detectBasicGesture st hands) = map_sum id snd (detectBasicGesture st' hands)"
  using assms
  by (auto simp: detectBasicGesture_def calculateHandStability_def Let_def split_beta
      split: option.splits list.splits)


lemma stability_previousHands [simp]:
  "previousHands (fst (calculateHandStability st l r)) = Some \<lparr>left = l, right = r\<rparr>"
  by (simp add: calculateHandStability_def Let_def split: option.splits)

lemma stability_currentHands [simp]:
  "snd (calculateHandStability (st\<lparr>currentHands := hs\<rparr>) l r) = snd (calculateHandStability st l r)"
  by (simp add: calculateHandStability_def Let_def split: option.splits)

lemma drawLandmarks_wristHands [simp]:
  "drawLandmarks [wristHand w a, wristHand v b] = Inr ()"
  by (simp add: drawLandmarks_def wristHand_def)

lemma onResults_wristHands:
  fixes st :: tracker
  assumes "f_results f = Some [wristHand w a, wristHand v b]"
  defines "r \<equiv> gestureScore \<bar>w - v\<bar> (Some \<bar>(w + 20 * a) / 21 - (v + 20 * b) / 21\<bar>)
                 (snd (calculateHandStability st (wristHand w a) (wristHand v b)))"
  shows "snd (onResults f st) = (detected r \<and> confidence r > 8 / 10)
         \<and> previousHands (fst (onResults f st)) = Some \<lparr>left = wristHand w a, right = wristHand v b\<rparr>
         \<and> metrics (gestureState (fst (onResults f st))) = metrics r
         \<and> lastTrigger (gestureState (fst (onResults f st))) =
             (if detected r \<and> confidence r > 8 / 10 then Some (f_now f) else None)"
proof -
  let ?hs = "[wristHand w a, wristHand v b]"
  let ?st1 = "st\<lparr>currentHands := ?hs\<rparr>"
  have len: "length (currentHands ?st1) = 2" by simp
  have det: "detectBasicGesture ?st1 (Some (currentHands ?st1)) =
               Inr (fst (calculateHandStability ?st1 (wristHand w a) (wristHand v b)), r)"
    by (simp add: detect_wristHands r_def)
  from processGestures_two [OF len det, of "f_rnd f" "f_perf f" "f_now f"]
  obtain st' where st':
    "processGestures (f_rnd f) (f_perf f) (f_now f) ?st1 = Inr (st', detected r \<and> confidence r > 8 / 10)"
    "previousHands st' = Some \<lparr>left = wristHand w a, right = wristHand v b\<rparr>"
    "metrics (gestureState st') = metrics r"
    "lastTrigger (gestureState st') = (if detected r \<and> confidence r > 8 / 10 then Some (f_now f) else None)"
    by auto
  have "onResults f st = (st', detected r \<and> confidence r > 8 / 10)"
    using assms(1) st'(1) by (simp add: onResults_def)
  then show ?thesis using st'(2,3,4) by simp
qed

lemma onResults_flat_first:
  assumes "f_results f = Some [flatHand a, flatHand b]" and "previousHands st = None"
  shows "snd (onResults f st) = False
         \<and> previousHands (fst (onResults f st)) = Some \<lparr>left = flatHand a, right = flatHand b\<rparr>"
  using onResults_wristHands [of f a a b b st] assms
  by (simp add: flatHand_def stability_first gestureScore_detected num_greater_def)

lemma onResults_flat_held:
  assumes "f_results f = Some [flatHand a, flatHand b]"
    and "previousHands st = Some \<lparr>left = flatHand a, right = flatHand b\<rparr>"
  shows "snd (onResults f st) =
           (detected (gestureScore \<bar>a - b\<bar> (Some \<bar>a - b\<bar>) (Some 1))
            \<and> confidence (gestureScore \<bar>a - b\<bar> (Some \<bar>a - b\<bar>) (Some 1)) > 8 / 10)
         \<and> previousHands (fst (onResults f st)) = Some \<lparr>left = flatHand a, right = flatHand b\<rparr>
         \<and> metrics (gestureState (fst (onResults f st)))
             = metrics (gestureScore \<bar>a - b\<bar> (Some \<bar>a - b\<bar>) (Some 1))
         \<and> lastTrigger (gestureState (fst (onResults f st))) =
             (if detected (gestureScore \<bar>a - b\<bar> (Some \<bar>a - b\<bar>) (Some 1))
                 \<and> confidence (gestureScore \<bar>a - b\<bar> (Some \<bar>a - b\<bar>) (Some 1)) > 8 / 10
              then Some (f_now f) else None)"
  using onResults_wristHands [of f a a b b st] assms
  by (simp add: flatHand_def stability_wristHands)

lemma onResults_no_hands:
  assumes "f_results f = Some []"
  shows "snd (onResults f st) = False \<and> previousHands (fst (onResults f st)) = previousHands st"
  using assms by (simp add: onResults_def drawLandmarks_def processGestures_def)

lemma feed_Cons_snd:
  "snd (feed st (f # fs)) = snd (onResults f st) # snd (feed (fst (onResults f st)) fs)"
  by (simp add: split_beta)

lemma feed_Cons_fst:
  "fst (feed st (f # fs)) = fst (feed (fst (onResults f st)) fs)"
  by (simp add: split_beta)

lemma close_score:
  "detected (gestureScore (1 / 20) (Some (1 / 20)) (Some 1))
   \<and> confidence (gestureScore (1 / 20) (Some (1 / 20)) (Some 1)) = 43 / 50"
  by (simp add: gestureScore_detected gestureScore_confidence num_less_def num_greater_def)

text \<open>
  Claim C1 asks for at most one spawn event in any window of 3000 ms. On the code, three
  frames of the same two close, still hands at 1000, 1033 and 1066 ms fire a spawn event
  on the second and on the third frame, 33 ms apart, although the second frame has set
  the last-trigger timestamp to 1033: the next call replaces the gesture state by an
  object without that property before the cooldown test reads it.
\<close>

theorem C1_cooldown_failing_run:
  "snd (feed (newTracker 0 640 480)
          [frameOf 1000 closeHands, frameOf 1033 closeHands, frameOf 1066 closeHands])
     = [False, True, True]
   \<and> lastTrigger (gestureState (fst (feed (newTracker 0 640 480)
          [frameOf 1000 closeHands, frameOf 1033 closeHands]))) = Some 1033"
proof -
  let ?s0 = "newTracker 0 640 480"
  let ?f1 = "frameOf 1000 closeHands" and ?f2 = "frameOf 1033 closeHands"
    and ?f3 = "frameOf 1066 closeHands"
  let ?s1 = "fst (onResults ?f1 ?s0)"
  let ?s2 = "fst (onResults ?f2 ?s1)"
  have r: "\<And>t. f_results (frameOf t closeHands) = Some [flatHand (45 / 100), flatHand (1 / 2)]"
    by (simp add: frameOf_def closeHands_def)
  have p0: "previousHands ?s0 = None" by (simp add: newTracker_def)
  note one = onResults_flat_first [OF r p0]
  from one have p1: "previousHands ?s1 = Some \<lparr>left = flatHand (45 / 100), right = flatHand (1 / 2)\<rparr>"
    by simp
  note two = onResults_flat_held [OF r p1, of 1033]
  from two have p2: "previousHands ?s2 = Some \<lparr>left = flatHand (45 / 100), right = flatHand (1 / 2)\<rparr>"
    by simp
  note three = onResults_flat_held [OF r p2, of 1066]
  have a: "snd (onResults ?f1 ?s0) = False" using one by simp
  have b: "snd (onResults ?f2 ?s1) = True" using two close_score by simp
  have c: "snd (onResults ?f3 ?s2) = True" using three close_score by simp
  have d: "lastTrigger (gestureState ?s2) = Some 1033"
    using two close_score by (simp add: frameOf_def)
  show ?thesis
    by (simp add: feed_Cons_snd feed_Cons_fst a b c d del: feed.simps(2))
qed


text \<open>
  Claim C6, as stated, fails: after a two-hand frame, a frame without hands and the same
  two hands again, the observations stored before the drop are still there, and the
  stability of the last frame is 1, computed against them, not the neutral 1/2.
\<close>

theorem C6_stale_history_counterexample:
  "snd (feed (newTracker 0 640 480)
          [frameOf 1000 closeHands, frameOf 1033 [], frameOf 1066 closeHands])
     = [False, False, True]
   \<and> previousHands (fst (feed (newTracker 0 640 480) [frameOf 1000 closeHands, frameOf 1033 []]))
       = Some \<lparr>left = flatHand (45 / 100), right = flatHand (1 / 2)\<rparr>
   \<and> map_option stability (metrics (gestureState (fst (feed (newTracker 0 640 480)
          [frameOf 1000 closeHands, frameOf 1033 [], frameOf 1066 closeHands]))))
       = Some (Some 1)
   \<and> map_option stability (metrics (gestureState (fst (feed (newTracker 0 640 480)
          [frameOf 1000 closeHands, frameOf 1033 [], frameOf 1066 closeHands]))))
       \<noteq> Some (Some (1 / 2))"
proof -
  let ?s0 = "newTracker 0 640 480"
  let ?f1 = "frameOf 1000 closeHands" and ?f2 = "frameOf 1033 []"
    and ?f3 = "frameOf 1066 closeHands"
  let ?s1 = "fst (onResults ?f1 ?s0)"
  let ?s2 = "fst (onResults ?f2 ?s1)"
  let ?s3 = "fst (onResults ?f3 ?s2)"
  have r: "\<And>t. f_results (frameOf t closeHands) = Some [flatHand (45 / 100), flatHand (1 / 2)]"
    by (simp add: frameOf_def closeHands_def)
  have e: "f_results ?f2 = Some []" by (simp add: frameOf_def)
  have p0: "previousHands ?s0 = None" by (simp add: newTracker_def)
  note one = onResults_flat_first [OF r p0]
  note two = onResults_no_hands [OF e, of ?s1]
  from one two
  have p2: "previousHands ?s2 = Some \<lparr>left = flatHand (45 / 100), right = flatHand (1 / 2)\<rparr>"
    by simp
  note three = onResults_flat_held [OF r p2, of 1066]
  have a: "snd (onResults ?f1 ?s0) = False" using one by simp
  have b: "snd (onResults ?f2 ?s1) = False" using two by simp
  have c: "snd (onResults ?f3 ?s2) = True" using three close_score by simp
  have d: "map_option stability (metrics (gestureState ?s3)) = Some (Some 1)"
    using three by (simp add: gestureScore_metrics)
  show ?thesis
    by (simp add: feed_Cons_snd feed_Cons_fst a b c d p2 del: feed.simps(2))
qed

text \<open>
  Claim C6, amended. A frame whose number of hands is not 2 (in particular fewer than
  2) fires nothing and leaves the stored previous observations as they are, neither
  cleared nor ignored. Every later classification returns what it would have returned
  without that frame: the stability of the first two-hand frame after the drop is
  computed against the observations stored before the drop, and it is the neutral
  first-frame value 1/2 when nothing was stored before the drop.
\<close>

theorem C6_drop_keeps_history:
  assumes "length (currentHands st) \<noteq> 2"
  shows "\<exists>st'. processGestures rnd perf now st = Inr (st', False)
           \<and> previousHands st' = previousHands st
           \<and> (\<forall>hands. map_sum id snd (detectBasicGesture st' hands)
                      = map_sum id snd (detectBasicGesture st hands))
           \<and> (\<forall>l r. snd (calculateHandStability st' l r) =
                  (case previousHands st of
                     None \<Rightarrow> Some (1 / 2)
                   | Some prev \<Rightarrow>
                       map_option (\<lambda>a. max 0 (1 - a * 10))
                         (num_avg (calculateHandMovement (Some l) (Some (left prev)))
                                  (calculateHandMovement (Some r) (Some (right prev))))))"
proof -
  let ?st' = "st\<lparr>gestureState := \<lparr>detected = False, confidence = 0, metrics = None,
                                      lastUpdate = now, lastTrigger = None\<rparr>\<rparr>"
  have "processGestures rnd perf now st = Inr (?st', False)"
    using assms by (rule processGestures_other)
  moreover have "previousHands ?st' = previousHands st" by simp
  moreover have "\<forall>hands. map_sum id snd (detectBasicGesture ?st' hands)
                      = map_sum id snd (detectBasicGesture st hands)"
    by (intro allI detect_previousHands_only) simp
  moreover have "\<forall>l r. snd (calculateHandStability ?st' l r) =
                  (case previousHands st of
                     None \<Rightarrow> Some (1 / 2)
                   | Some prev \<Rightarrow>
                       map_option (\<lambda>a. max 0 (1 - a * 10))
                         (num_avg (calculateHandMovement (Some l) (Some (left prev)))
                                  (calculateHandMovement (Some r) (Some (right prev)))))"
    by (simp add: calculateHandStability_def Let_def split: option.splits)
  ultimately show ?thesis by blast
qed

theorem C6_drop_keeps_history_witness:
  "length (currentHands heldTracker) \<noteq> 2
   \<and> (\<exists>st'. processGestures (\<lambda>k. 1 / 2) 0 1033 heldTracker = Inr (st', False)
          \<and> previousHands st' = Some \<lparr>left = flatHand (45 / 100), right = flatHand (1 / 2)\<rparr>
          \<and> map_sum id snd (detectBasicGesture st' (Some closeHands))
              = Inr (gestureScore (1 / 20) (Some (1 / 20)) (Some 1))
          \<and> snd (calculateHandStability st' (flatHand (45 / 100)) (flatHand (1 / 2))) = Some 1
          \<and> snd (calculateHandStability st' (flatHand (45 / 100)) (flatHand (52 / 100)))
              = Some (9 / 10))
   \<and> length (currentHands (newTracker 0 640 480)) \<noteq> 2
   \<and> (\<exists>st'. processGestures (\<lambda>k. 1 / 2) 0 1033 (newTracker 0 640 480) = Inr (st', False)
          \<and> previousHands st' = None
          \<and> snd (calculateHandStability st' (flatHand (45 / 100)) (flatHand (1 / 2)))
              = Some (1 / 2))"
proof -
  have h: "length (currentHands heldTracker) \<noteq> 2"
    by (simp add: heldTracker_def newTracker_def)
  have p: "previousHands heldTracker = Some \<lparr>left = flatHand (45 / 100), right = flatHand (1 / 2)\<rparr>"
    by (simp add: heldTracker_def)
  have g: "map_sum id snd (detectBasicGesture heldTracker (Some closeHands))
           = Inr (gestureScore (1 / 20) (Some (1 / 20)) (Some 1))"
    using detect_flat_held [OF p] by (simp add: closeHands_def)
  have m1: "map_option (\<lambda>a. max 0 (1 - a * 10))
              (num_avg (calculateHandMovement (Some (flatHand (45 / 100))) (Some (flatHand (45 / 100))))
                       (calculateHandMovement (Some (flatHand (1 / 2))) (Some (flatHand (1 / 2)))))
            = Some 1"
    by (simp add: flatHand_def calculateHandMovement_wristHand num_avg_def)
  have m2: "map_option (\<lambda>a. max 0 (1 - a * 10))
              (num_avg (calculateHandMovement (Some (flatHand (45 / 100))) (Some (flatHand (45 / 100))))
                       (calculateHandMovement (Some (flatHand (52 / 100))) (Some (flatHand (1 / 2)))))
            = Some (9 / 10)"
    by (simp add: flatHand_def calculateHandMovement_wristHand num_avg_def)
  from C6_drop_keeps_history [OF h, of "\<lambda>k. 1 / 2" 0 1033]
  obtain st' where s: "processGestures (\<lambda>k. 1 / 2) 0 1033 heldTracker = Inr (st', False)"
    "previousHands st' = previousHands heldTracker"
    "\<forall>hands. map_sum id snd (detectBasicGesture st' hands)
                      = map_sum id snd (detectBasicGesture heldTracker hands)"
    "\<forall>l r. snd (calculateHandStability st' l r) =
         (case previousHands heldTracker of
            None \<Rightarrow> Some (1 / 2)
          | Some prev \<Rightarrow>
              map_option (\<lambda>a. max 0 (1 - a * 10))
                (num_avg (calculateHandMovement (Some l) (Some (left prev)))
                         (calculateHandMovement (Some r) (Some (right prev)))))"
    by blast
  have a1: "snd (calculateHandStability st' (flatHand (45 / 100)) (flatHand (1 / 2))) = Some 1"
    using s(4) m1 by (simp add: p)
  have a2: "snd (calculateHandStability st' (flatHand (45 / 100)) (flatHand (52 / 100)))
              = Some (9 / 10)"
    using s(4) m2 by (simp add: p)
  have held: "\<exists>st'. processGestures (\<lambda>k. 1 / 2) 0 1033 heldTracker = Inr (st', False)
          \<and> previousHands st' = Some \<lparr>left = flatHand (45 / 100), right = flatHand (1 / 2)\<rparr>
          \<and> map_sum id snd (detectBasicGesture st' (Some closeHands))
              = Inr (gestureScore (1 / 20) (Some (1 / 20)) (Some 1))
          \<and> snd (calculateHandStability st' (flatHand (45 / 100)) (flatHand (1 / 2))) = Some 1
          \<and> snd (calculateHandStability st' (flatHand (45 / 100)) (flatHand (52 / 100)))
              = Some (9 / 10)"
    using s(1,2,3) p g a1 a2 by auto
  have h0: "length (currentHands (newTracker 0 640 480)) \<noteq> 2"
    by (simp add: newTracker_def)
  have p0: "previousHands (newTracker 0 640 480) = None"
    by (simp add: newTracker_def)
  from C6_drop_keeps_history [OF h0, of "\<lambda>k. 1 / 2" 0 1033]
  obtain st0 where t: "processGestures (\<lambda>k. 1 / 2) 0 1033 (newTracker 0 640 480) = Inr (st0, False)"
    "previousHands st0 = previousHands (newTracker 0 640 480)"
    "\<forall>l r. snd (calculateHandStability st0 l r) =
         (case previousHands (newTracker 0 640 480) of
            None \<Rightarrow> Some (1 / 2)
          | Some prev \<Rightarrow>
              map_option (\<lambda>a. max 0 (1 - a * 10))
                (num_avg (calculateHandMovement (Some l) (Some (left prev)))
                         (calculateHandMovement (Some r) (Some (right prev)))))"
    by blast
  have fresh: "\<exists>st'. processGestures (\<lambda>k. 1 / 2) 0 1033 (newTracker 0 640 480) = Inr (st', False)
          \<and> previousHands st' = None
          \<and> snd (calculateHandStability st' (flatHand (45 / 100)) (flatHand (1 / 2)))
              = Some (1 / 2)"
    using t by (auto simp: p0)
  from h held h0 fresh show ?thesis by blast
qed

section \<open>Claims about particles\<close>

lemma updateParticle_age [simp]: "age (updateParticle dt p) = age p + dt"
  by (simp add: updateParticle_def Let_def)

lemma updateParticle_maxAge [simp]: "maxAge (updateParticle dt p) = maxAge p"
  by (simp add: updateParticle_def Let_def)

lemma updateParticle_phase:
  "phase (updateParticle dt p) =
     (if age p + dt < 500 then spawning
      else if age p + dt < maxAge p - 1000 then floating else dying)"
  by (simp add: updateParticle_def Let_def)

lemma updateParticle_alpha:
  "alpha (updateParticle dt p) =
     (if age p + dt < 500 then min 1 ((age p + dt) / 500)
      else if age p + dt < maxAge p - 1000 then 1
      else max 0 (1 - (age p + dt - (maxAge p - 1000)) / 1000))"
  by (simp add: updateParticle_def Let_def)

lemma updateParticle_phase_inv:
  assumes "1500 \<le> maxAge p"
  shows "phase_inv (updateParticle dt p)"
  using assms by (auto simp: phase_inv_def updateParticle_phase)

lemma phase_rank_mono:
  assumes "phase_inv p" and "0 \<le> dt"
  shows "phase_rank (phase p) \<le> phase_rank (phase (updateParticle dt p))"
proof (cases "phase p")
  case spawning
  then show ?thesis by (simp add: phase_rank_def)
next
  case floating
  with assms have "500 \<le> age p + dt" by (simp add: phase_inv_def)
  then show ?thesis by (simp add: floating phase_rank_def updateParticle_phase)
next
  case dying
  with assms have "maxAge p - 1000 \<le> age p + dt" and "500 \<le> age p + dt"
    by (auto simp: phase_inv_def)
  then show ?thesis by (simp add: dying phase_rank_def updateParticle_phase)
qed


lemma ticks_maxAge [simp]: "maxAge (ticks dts p) = maxAge p"
  unfolding ticks_def by (induction dts arbitrary: p) simp_all

lemma ticks_phase_inv:
  assumes "1500 \<le> maxAge p" and "phase_inv p"
  shows "phase_inv (ticks dts p)"
  using assms unfolding ticks_def
  by (induction dts arbitrary: p) (simp_all add: updateParticle_phase_inv)

lemma ticks_phase_rank:
  assumes "1500 \<le> maxAge p" and "phase_inv p" and "\<forall>dt \<in> set dts. 0 \<le> dt"
  shows "phase_rank (phase p) \<le> phase_rank (phase (ticks dts p))"
  using assms
proof (induction dts arbitrary: p)
  case Nil
  then show ?case by (simp add: ticks_def)
next
  case (Cons dt dts)
  have "phase_rank (phase p) \<le> phase_rank (phase (updateParticle dt p))"
    using Cons.prems by (intro phase_rank_mono) simp_all
  also have "\<dots> \<le> phase_rank (phase (ticks dts (updateParticle dt p)))"
    using Cons.prems by (intro Cons.IH) (simp_all add: updateParticle_phase_inv)
  finally show ?case by (simp add: ticks_def)
qed

text \<open>
  Claim C7. If every particle has a lifetime of at least 5000 ms, then after an update
  tick every particle left in the set has the phase of its age (spawning exactly while
  \<open>age < 500\<close>, floating exactly while \<open>500 \<le> age < maxAge - 1000\<close>, dying exactly
  when \<open>age \<ge> maxAge - 1000\<close>); an updated particle stays in the set exactly when its
  new age is below \<open>maxAge\<close>; and over any sequence of ticks with non-negative time
  steps the phase of a particle never moves back in the order spawning, floating,
  dying.
\<close>

theorem C7_phase_lifecycle:
  assumes "\<forall>p \<in> set (particles ps). 5000 \<le> maxAge p"
  shows "(\<forall>q \<in> set (particles (updateParticles dt ps)).
            phase_inv q \<and> age q < maxAge q \<and> 5000 \<le> maxAge q)
         \<and> (\<forall>p \<in> set (particles ps).
               (updateParticle dt p \<in> set (particles (updateParticles dt ps)))
                 = (\<not> maxAge p \<le> age p + dt))
         \<and> (\<forall>p \<in> set (particles ps). \<forall>dts.
               phase_inv p \<and> (\<forall>d \<in> set dts. 0 \<le> d) \<longrightarrow>
               phase_rank (phase p) \<le> phase_rank (phase (ticks dts p)))"
proof (intro conjI ballI allI impI)
  fix q assume "q \<in> set (particles (updateParticles dt ps))"
  then obtain p where p: "p \<in> set (particles ps)" "q = updateParticle dt p" "age q < maxAge q"
    by (auto simp: updateParticles_def)
  from p(1) assms have m: "5000 \<le> maxAge p" by blast
  then show "phase_inv q" by (simp add: p(2) updateParticle_phase_inv)
  show "age q < maxAge q" by (rule p(3))
  show "5000 \<le> maxAge q" using m by (simp add: p(2))
next
  fix p assume "p \<in> set (particles ps)"
  then show "(updateParticle dt p \<in> set (particles (updateParticles dt ps)))
                 = (\<not> maxAge p \<le> age p + dt)"
    by (auto simp: updateParticles_def)
next
  fix p and dts :: "real list"
  assume "p \<in> set (particles ps)" and h: "phase_inv p \<and> (\<forall>d \<in> set dts. 0 \<le> d)"
  with assms have "1500 \<le> maxAge p" by fastforce
  with h show "phase_rank (phase p) \<le> phase_rank (phase (ticks dts p))"
    by (intro ticks_phase_rank) simp_all
qed

lemma demo_particles:
  "particles (updateParticles 5500 demoSystem) = [updateParticle 5500 (particleOf 450 6000)]"
  by (simp add: updateParticles_def demoSystem_def particleOf_def)

theorem C7_phase_lifecycle_witness:
  "particles demoSystem = [particleOf 0 5000, particleOf 450 6000]
   \<and> 5000 \<le> maxAge (particleOf 0 5000) \<and> 5000 \<le> maxAge (particleOf 450 6000)
   \<and> particles (updateParticles 5500 demoSystem) = [updateParticle 5500 (particleOf 450 6000)]
   \<and> phase (updateParticle 5500 (particleOf 450 6000)) = dying
   \<and> phase_inv (particleOf 450 6000)
   \<and> phase_rank (phase (particleOf 450 6000))
       \<le> phase_rank (phase (ticks [100, 3000, 2400] (particleOf 450 6000)))
   \<and> updateParticle 5500 (particleOf 0 5000) \<notin> set (particles (updateParticles 5500 demoSystem))"
proof -
  have h: "\<forall>p \<in> set (particles demoSystem). 5000 \<le> maxAge p"
    by (simp add: demoSystem_def particleOf_def)
  have i: "phase_inv (particleOf 450 6000)"
    by (simp add: phase_inv_def particleOf_def)
  have m: "particleOf 450 6000 \<in> set (particles demoSystem)"
     "particleOf 0 5000 \<in> set (particles demoSystem)"
    by (simp_all add: demoSystem_def)
  have a: "age (updateParticle 5500 (particleOf 450 6000)) = 5950"
     "maxAge (updateParticle 5500 (particleOf 450 6000)) = 6000"
     "age (particleOf 0 5000) = 0" "maxAge (particleOf 0 5000) = 5000"
    by (simp_all add: particleOf_def)
  note w = C7_phase_lifecycle [OF h, of 5500]
  from w have "phase_inv (updateParticle 5500 (particleOf 450 6000))"
    by (simp add: demo_particles)
  then have d: "phase (updateParticle 5500 (particleOf 450 6000)) = dying"
    unfolding phase_inv_def a by simp
  from w m(2) have r: "updateParticle 5500 (particleOf 0 5000) \<notin> set (particles (updateParticles 5500 demoSystem))"
    using a(3,4) by simp
  from w m(1) i have k: "phase_rank (phase (particleOf 450 6000))
       \<le> phase_rank (phase (ticks [100, 3000, 2400] (particleOf 450 6000)))"
    by simp
  have e: "particles demoSystem = [particleOf 0 5000, particleOf 450 6000]"
    by (simp add: demoSystem_def)
  have f: "5000 \<le> maxAge (particleOf 0 5000) \<and> 5000 \<le> maxAge (particleOf 450 6000)"
    by (simp add: particleOf_def)
  show ?thesis using e f i d r k demo_particles by simp
qed


lemma updateParticle_alpha_inv:
  assumes "5000 \<le> maxAge p"
  shows "alpha_inv (updateParticle dt p)"
  using assms by (auto simp: alpha_inv_def updateParticle_alpha)

lemma makeParticle_fields:
  "age (makeParticle rnd cx cy sc index point) = 0"
  "alpha (makeParticle rnd cx cy sc index point) = 0"
  "phase (makeParticle rnd cx cy sc index point) = spawning"
  "pid (makeParticle rnd cx cy sc index point) = index"
  "maxAge (makeParticle rnd cx cy sc index point) = 5000 + rnd (9 * index + 8) * 3000"
  by (simp_all add: makeParticle_def Let_def)

lemma ticks_alpha_inv:
  assumes "5000 \<le> maxAge p" and "alpha_inv p"
  shows "alpha_inv (ticks dts p)"
  using assms unfolding ticks_def
  by (induction dts arbitrary: p) (simp_all add: updateParticle_alpha_inv)

text \<open>
  Claim C8. For every particle with a lifetime in the range from 5000 to 8000 ms, an
  update leaves \<open>alpha\<close> equal to \<open>min(1, age / 500)\<close> while \<open>age < 500\<close>, equal to 1 while
  \<open>500 \<le> age < maxAge - 1000\<close>, and equal to
  \<open>max(0, 1 - (age - (maxAge - 1000)) / 1000)\<close> from then on, hence 0 at age 0 and 0 once
  \<open>age \<ge> maxAge\<close>. A particle is created with age 0, alpha 0 and a lifetime in that
  range, and keeps the property through every sequence of ticks.
\<close>

theorem C8_alpha_envelope:
  "(5000 \<le> maxAge p \<and> maxAge p < 8000 \<longrightarrow> alpha_inv (updateParticle dt p))
   \<and> (0 \<le> rnd (9 * index + 8) \<and> rnd (9 * index + 8) < 1 \<longrightarrow>
        age (makeParticle rnd cx cy sc index point) = 0
        \<and> alpha (makeParticle rnd cx cy sc index point) = 0
        \<and> 5000 \<le> maxAge (makeParticle rnd cx cy sc index point)
        \<and> maxAge (makeParticle rnd cx cy sc index point) < 8000
        \<and> alpha_inv (ticks dts (makeParticle rnd cx cy sc index point)))"
proof (intro conjI impI)
  assume "5000 \<le> maxAge p \<and> maxAge p < 8000"
  then show "alpha_inv (updateParticle dt p)" by (simp add: updateParticle_alpha_inv)
next
  let ?q = "makeParticle rnd cx cy sc index point"
  assume r: "0 \<le> rnd (9 * index + 8) \<and> rnd (9 * index + 8) < 1"
  show "age ?q = 0" "alpha ?q = 0" by (simp_all add: makeParticle_fields)
  show m: "5000 \<le> maxAge ?q" using r by (simp add: makeParticle_fields)
  show "maxAge ?q < 8000" using r by (simp add: makeParticle_fields)
  have "alpha_inv ?q" using m by (simp add: alpha_inv_def makeParticle_fields(1,2))
  with m show "alpha_inv (ticks dts ?q)" by (rule ticks_alpha_inv)
qed

theorem C8_alpha_envelope_witness:
  "5000 \<le> maxAge (particleOf 0 5000) \<and> maxAge (particleOf 0 5000) < 8000
   \<and> alpha (updateParticle 0 (particleOf 0 5000)) = 0
   \<and> alpha (updateParticle 250 (particleOf 0 5000)) = 1 / 2
   \<and> alpha (updateParticle 500 (particleOf 0 5000)) = 1
   \<and> alpha (updateParticle 3999 (particleOf 0 5000)) = 1
   \<and> alpha (updateParticle 4500 (particleOf 0 5000)) = 1 / 2
   \<and> alpha (updateParticle 5000 (particleOf 0 5000)) = 0
   \<and> (0 :: real) \<le> 1 / 2 \<and> (1 / 2 :: real) < 1
   \<and> alpha (makeParticle (\<lambda>k. 1 / 2) 320 240 144 0 (1 / 2, 3 / 10)) = 0
   \<and> maxAge (makeParticle (\<lambda>k. 1 / 2) 320 240 144 0 (1 / 2, 3 / 10)) = 6500
   \<and> alpha (ticks [100, 150] (makeParticle (\<lambda>k. 1 / 2) 320 240 144 0 (1 / 2, 3 / 10))) = 1 / 2"
proof -
  let ?p = "particleOf 0 5000"
  let ?q = "makeParticle (\<lambda>k. 1 / 2) 320 240 144 0 (1 / 2, 3 / 10)"
  have h: "5000 \<le> maxAge ?p \<and> maxAge ?p < 8000" by (simp add: particleOf_def)
  have a: "age ?p = 0" "maxAge ?p = 5000" by (simp_all add: particleOf_def)
  have g: "(0 :: real) \<le> 1 / 2 \<and> (1 / 2 :: real) < 1" by simp
  have t: "age (ticks [100, 150] ?q) = 250"
    by (simp add: ticks_def makeParticle_fields)
  have v0: "alpha (updateParticle 0 ?p) = 0"
    using C8_alpha_envelope [of ?p 0] h by (simp add: alpha_inv_def a)
  have v1: "alpha (updateParticle 250 ?p) = 1 / 2"
    using C8_alpha_envelope [of ?p 250] h by (simp add: alpha_inv_def a)
  have v2: "alpha (updateParticle 500 ?p) = 1"
    using C8_alpha_envelope [of ?p 500] h by (simp add: alpha_inv_def a)
  have v3: "alpha (updateParticle 3999 ?p) = 1"
    using C8_alpha_envelope [of ?p 3999] h by (simp add: alpha_inv_def a)
  have v4: "alpha (updateParticle 4500 ?p) = 1 / 2"
    using C8_alpha_envelope [of ?p 4500] h by (simp add: alpha_inv_def a)
  have v5: "alpha (updateParticle 5000 ?p) = 0"
    using C8_alpha_envelope [of ?p 5000] h by (simp add: alpha_inv_def a)
  have s: "alpha ?q = 0 \<and> maxAge ?q = 6500 \<and> alpha (ticks [100, 150] ?q) = 1 / 2"
    using C8_alpha_envelope [of ?p 0 "\<lambda>k. 1 / 2" 0 320 240 144 "(1 / 2, 3 / 10)" "[100, 150]"] g
    by (simp add: alpha_inv_def t makeParticle_fields)
  show ?thesis using h g v0 v1 v2 v3 v4 v5 s by simp
qed

lemma startAnimation_particles [simp]:
  "particles (startAnimation perf ps) = particles ps"
  by (simp add: startAnimation_def)

lemma spawn_particles:
  "particles (spawnTigerConstellation rnd perf cx cy scale ps) =
     map (\<lambda>(index, point).
            makeParticle rnd (num_or cx (pcanvasWidth ps / 2)) (num_or cy (pcanvasHeight ps / 2))
              (scale * min (pcanvasWidth ps) (pcanvasHeight ps) * 0.3) index point)
         (enumerate 0 tigerTemplate)"
  by (simp add: spawnTigerConstellation_def Let_def)

lemma tigerTemplate_length: "length tigerTemplate = 43"
  by (simp add: tigerTemplate_def)

text \<open>
  Claim C9. The template has 43 anchor points. After any call of
  \<open>spawnTigerConstellation\<close> the particle set holds exactly 43 particles, one per
  anchor point in order, each with alpha 0, and it is the same set whatever particles
  were live before the call.
\<close>

theorem C9_spawn_replaces:
  "length tigerTemplate = 43
   \<and> length (particles (spawnTigerConstellation rnd perf cx cy scale ps)) = 43
   \<and> map alpha (particles (spawnTigerConstellation rnd perf cx cy scale ps)) = replicate 43 0
   \<and> map pid (particles (spawnTigerConstellation rnd perf cx cy scale ps)) = [0..<43]
   \<and> particles (spawnTigerConstellation rnd perf cx cy scale (ps\<lparr>particles := old\<rparr>))
       = particles (spawnTigerConstellation rnd perf cx cy scale ps)"
proof -
  have l: "length (particles (spawnTigerConstellation rnd perf cx cy scale ps)) = 43"
    by (simp add: spawn_particles tigerTemplate_length)
  have "map alpha (particles (spawnTigerConstellation rnd perf cx cy scale ps))
           = map (\<lambda>x. 0) (enumerate 0 tigerTemplate)"
    by (simp add: spawn_particles split_beta makeParticle_fields)
  then have a: "map alpha (particles (spawnTigerConstellation rnd perf cx cy scale ps))
           = replicate 43 0"
    by (simp add: map_replicate_const tigerTemplate_length)
  have "map pid (particles (spawnTigerConstellation rnd perf cx cy scale ps))
           = [0..<length tigerTemplate]"
    by (simp add: spawn_particles split_beta comp_def makeParticle_fields)
  then have b: "map pid (particles (spawnTigerConstellation rnd perf cx cy scale ps)) = [0..<43]"
    by (simp add: tigerTemplate_length)
  have c: "particles (spawnTigerConstellation rnd perf cx cy scale (ps\<lparr>particles := old\<rparr>))
       = particles (spawnTigerConstellation rnd perf cx cy scale ps)"
    by (simp add: spawn_particles)
  from tigerTemplate_length l a b c show ?thesis by blast
qed


lemma spawn_invariants:
  assumes "\<forall>k. 0 \<le> rnd k \<and> rnd k < 1"
    and "p \<in> set (particles (spawnTigerConstellation rnd perf cx cy scale ps))"
  shows "5000 \<le> maxAge p \<and> maxAge p < 8000 \<and> phase_inv p \<and> alpha_inv p"
proof -
  from assms(2) obtain index point where
    p: "p = makeParticle rnd (num_or cx (pcanvasWidth ps / 2)) (num_or cy (pcanvasHeight ps / 2))
              (scale * min (pcanvasWidth ps) (pcanvasHeight ps) * 0.3) index point"
    by (auto simp: spawn_particles)
  from assms(1) have r: "0 \<le> rnd (9 * index + 8)" "rnd (9 * index + 8) < 1" by simp_all
  then show ?thesis
    by (simp add: p makeParticle_fields phase_inv_def alpha_inv_def)
qed

end
